theory Spec2Isabelle
  imports Main "HOL-Library.AList"
begin

section \<open>Python values and the builtins the scripts call\<close>

text \<open>
  The scripts of the repository reshape decoded JSON (\<^verbatim>\<open>resp.json()\<close>) and OCR text.
  A decoded JSON document is a Python value built from \<^verbatim>\<open>None\<close>, \<^verbatim>\<open>bool\<close>, \<^verbatim>\<open>int\<close>,
  \<^verbatim>\<open>float\<close>, \<^verbatim>\<open>str\<close>, \<^verbatim>\<open>list\<close> and \<^verbatim>\<open>dict\<close> (with \<^verbatim>\<open>str\<close> keys).

  \<^item> A Python \<^verbatim>\<open>str\<close> is a \<open>string\<close>: one \<open>char\<close> per code point, so the code points
    modelled are those below 256.
  \<^item> A Python \<^verbatim>\<open>int\<close> is an \<open>int\<close> (unbounded).
  \<^item> A \<^verbatim>\<open>dict\<close> is an association list in insertion order; a key is looked up with
    \<open>map_of\<close>.
  \<^item> Binary floating point is not modelled. The program can do three things with a float
    it meets in the tree: test its truth value, call \<^verbatim>\<open>int()\<close> on it and call \<^verbatim>\<open>str()\<close> on it.
    A float is represented by the three results, whatever they are.
  \<^item> An exception is a value of type \<open>error\<close>; a function that can raise returns
    \<open>error + 'a\<close> with \<open>Inl\<close> for the exception.
\<close>

datatype error =
    AttributeError
  | TypeError
  | ValueError
  | OverflowError
  | IndexError
  | NoValidPages  \<comment> \<open>the \<^verbatim>\<open>ValueError\<close> with the message \<^verbatim>\<open>No valid pages to process in ...\<close>\<close>

datatype pyfloat = PyFloat (float_truth: bool) (float_int: "error + int") (float_str: string)

datatype json =
    JNull
  | JBool bool
  | JInt int
  | JFloat pyfloat
  | JStr string
  | JList "json list"
  | JDict "(string \<times> json) list"

subsection \<open>Attribute access, iteration, truth\<close>

text \<open>
  \<^verbatim>\<open>obj.get(k, dflt)\<close>: only a \<^verbatim>\<open>dict\<close> has the method \<^verbatim>\<open>get\<close>; on every other JSON value
  the attribute lookup raises \<^verbatim>\<open>AttributeError\<close>.
\<close>

definition py_get :: "json \<Rightarrow> string \<Rightarrow> json \<Rightarrow> error + json" where
  "py_get obj k dflt =
     (case obj of
        JDict d \<Rightarrow> Inr (case map_of d k of Some v \<Rightarrow> v | None \<Rightarrow> dflt)
      | _ \<Rightarrow> Inl AttributeError)"

text \<open>
  \<^verbatim>\<open>for x in v\<close>: a list yields its elements, a string its characters (each a string of
  length one), a dict its keys; \<^verbatim>\<open>None\<close>, booleans and numbers are not iterable
  (\<^verbatim>\<open>TypeError\<close>).
\<close>

definition py_iter :: "json \<Rightarrow> error + json list" where
  "py_iter v =
     (case v of
        JList xs \<Rightarrow> Inr xs
      | JStr s \<Rightarrow> Inr (map (\<lambda>c. JStr [c]) s)
      | JDict d \<Rightarrow> Inr (map (\<lambda>kv. JStr (fst kv)) d)
      | _ \<Rightarrow> Inl TypeError)"

text \<open>The truth value of \<^verbatim>\<open>if not v\<close>.\<close>

definition py_truth :: "json \<Rightarrow> bool" where
  "py_truth v =
     (case v of
        JNull \<Rightarrow> False
      | JBool b \<Rightarrow> b
      | JInt i \<Rightarrow> i \<noteq> 0
      | JFloat f \<Rightarrow> float_truth f
      | JStr s \<Rightarrow> s \<noteq> []
      | JList xs \<Rightarrow> xs \<noteq> []
      | JDict d \<Rightarrow> d \<noteq> [])"

subsection \<open>Strings: whitespace and \<^verbatim>\<open>strip\<close>\<close>

text \<open>
  The code points below 256 for which \<^verbatim>\<open>str.isspace\<close> holds: TAB, LF, VT, FF, CR,
  the separators 0x1C to 0x1F, the space, NEL (0x85) and the no-break space (0xA0).
\<close>

definition py_isspace :: "char \<Rightarrow> bool" where
  "py_isspace c = ((of_char c :: nat) \<in> set [9, 10, 11, 12, 13, 28, 29, 30, 31, 32, 133, 160])"

definition py_strip :: "string \<Rightarrow> string" where
  "py_strip s = rev (dropWhile py_isspace (rev (dropWhile py_isspace s)))"

subsection \<open>\<^verbatim>\<open>int()\<close>\<close>

text \<open>
  CPython refuses to convert between \<^verbatim>\<open>str\<close> and \<^verbatim>\<open>int\<close> in base 10 when more than
  \<^verbatim>\<open>sys.get_int_max_str_digits()\<close> digits are involved; the default is 4300.
\<close>

definition int_max_str_digits :: nat where
  "int_max_str_digits = 4300"

definition is_digit :: "char \<Rightarrow> bool" where
  "is_digit c = (48 \<le> (of_char c :: nat) \<and> (of_char c :: nat) \<le> 57)"

definition digit_val :: "char \<Rightarrow> nat" where
  "digit_val c = of_char c - 48"

text \<open>The value of a digit string, most significant digit first.\<close>

definition digits_val :: "string \<Rightarrow> nat" where
  "digits_val ds = foldl (\<lambda>acc c. 10 * acc + digit_val c) 0 ds"

text \<open>
  Underscores may separate digits: none at the start, none at the end, no two in a row.
\<close>

fun underscores_ok :: "string \<Rightarrow> bool" where
  "underscores_ok [] = True"
| "underscores_ok [c] = (c \<noteq> CHR ''_'')"
| "underscores_ok (c # d # cs) =
     (\<not> (c = CHR ''_'' \<and> d = CHR ''_'') \<and> underscores_ok (d # cs))"

text \<open>
  \<^verbatim>\<open>int(s)\<close> for a string, base 10: surrounding whitespace is dropped, one sign is
  allowed, then at least one digit, digits optionally separated by single underscores.
  Anything else is a \<^verbatim>\<open>ValueError\<close>. The whitespace \<^verbatim>\<open>int\<close> drops is not that of
  \<^verbatim>\<open>strip\<close>: it is TAB, LF, VT, FF, CR and the space, and of the code points above 127
  NEL and the no-break space; the separators 0x1C to 0x1F are not dropped, so
  \<^verbatim>\<open>int("\x1c5")\<close> is a \<^verbatim>\<open>ValueError\<close>.
\<close>

definition int_isspace :: "char \<Rightarrow> bool" where
  "int_isspace c = ((of_char c :: nat) \<in> set [9, 10, 11, 12, 13, 32, 133, 160])"

definition py_int_str :: "string \<Rightarrow> error + int" where
  "py_int_str s =
     (let t = rev (dropWhile int_isspace (rev (dropWhile int_isspace s)));
          neg = (t \<noteq> [] \<and> hd t = CHR ''-'');
          u = (if t \<noteq> [] \<and> (hd t = CHR ''-'' \<or> hd t = CHR ''+'') then tl t else t);
          ds = filter (\<lambda>c. c \<noteq> CHR ''_'') u
      in if u = [] \<or> hd u = CHR ''_'' \<or> \<not> underscores_ok u \<or> \<not> list_all is_digit ds
         then Inl ValueError
         else if length ds > int_max_str_digits then Inl ValueError
         else Inr (if neg then - int (digits_val ds) else int (digits_val ds)))"

text \<open>
  \<^verbatim>\<open>int(v)\<close> on a JSON value: \<^verbatim>\<open>None\<close>, lists and dicts are a \<^verbatim>\<open>TypeError\<close>;
  \<^verbatim>\<open>True\<close> is 1 and \<^verbatim>\<open>False\<close> is 0.
\<close>

definition py_int :: "json \<Rightarrow> error + int" where
  "py_int v =
     (case v of
        JNull \<Rightarrow> Inl TypeError
      | JBool b \<Rightarrow> Inr (if b then 1 else 0)
      | JInt i \<Rightarrow> Inr i
      | JFloat f \<Rightarrow> float_int f
      | JStr s \<Rightarrow> py_int_str s
      | JList xs \<Rightarrow> Inl TypeError
      | JDict d \<Rightarrow> Inl TypeError)"

subsection \<open>\<^verbatim>\<open>str()\<close> and \<^verbatim>\<open>repr()\<close>\<close>

fun nat_digits :: "nat \<Rightarrow> string" where
  "nat_digits n =
     (if n < 10 then [char_of (48 + n)]
      else nat_digits (n div 10) @ [char_of (48 + n mod 10)])"

definition py_str_int :: "int \<Rightarrow> error + string" where
  "py_str_int i =
     (let ds = nat_digits (nat \<bar>i\<bar>)
      in if length ds > int_max_str_digits then Inl ValueError
         else Inr (if i < 0 then CHR ''-'' # ds else ds))"

definition hex_digit :: "nat \<Rightarrow> char" where
  "hex_digit n = (if n < 10 then char_of (48 + n) else char_of (87 + n))"

text \<open>
  \<^verbatim>\<open>repr\<close> of one character inside the quotes \<open>q\<close>: the quote and the backslash get a
  backslash, TAB, LF and CR their letter escapes, and every other code point that is not
  printable (below 0x20, 0x7F to 0xA0, and 0xAD) is written \<^verbatim>\<open>\xhh\<close>.
\<close>

definition repr_char :: "char \<Rightarrow> char \<Rightarrow> string" where
  "repr_char q c =
     (let n = (of_char c :: nat)
      in if c = q \<or> n = 92 then [CHR 0x5C, c]
         else if n = 9 then [CHR 0x5C, CHR ''t'']
         else if n = 10 then [CHR 0x5C, CHR ''n'']
         else if n = 13 then [CHR 0x5C, CHR ''r'']
         else if n < 32 \<or> (127 \<le> n \<and> n \<le> 160) \<or> n = 173
           then [CHR 0x5C, CHR ''x'', hex_digit (n div 16), hex_digit (n mod 16)]
         else [c])"

text \<open>
  \<^verbatim>\<open>repr(s)\<close>: single quotes, unless the string holds a single quote and no double quote.
\<close>

definition py_repr_str :: "string \<Rightarrow> string" where
  "py_repr_str s =
     (let q = (if CHR 0x27 \<in> set s \<and> CHR 0x22 \<notin> set s then CHR 0x22 else CHR 0x27)
      in [q] @ concat (map (repr_char q) s) @ [q])"

fun join_sep :: "string \<Rightarrow> string list \<Rightarrow> string" where
  "join_sep sep [] = []"
| "join_sep sep [x] = x"
| "join_sep sep (x # y # ys) = x @ sep @ join_sep sep (y # ys)"

text \<open>
  \<^verbatim>\<open>repr(v)\<close>. A list is \<^verbatim>\<open>[a, b]\<close>, a dict \<^verbatim>\<open>{'k': a, 'l': b}\<close>, each part by \<^verbatim>\<open>repr\<close>.
  The conversion of an integer can raise (the digit limit), and then the whole call does.
  The interpreter's recursion limit on deeply nested values is not modelled.
\<close>

fun py_repr :: "json \<Rightarrow> error + string"
  and py_repr_list :: "json list \<Rightarrow> error + string list"
  and py_repr_items :: "(string \<times> json) list \<Rightarrow> error + string list" where
  "py_repr JNull = Inr ''None''"
| "py_repr (JBool b) = Inr (if b then ''True'' else ''False'')"
| "py_repr (JInt i) = py_str_int i"
| "py_repr (JFloat f) = Inr (float_str f)"
| "py_repr (JStr s) = Inr (py_repr_str s)"
| "py_repr (JList xs) =
     (case py_repr_list xs of
        Inl e \<Rightarrow> Inl e
      | Inr ss \<Rightarrow> Inr (''['' @ join_sep '', '' ss @ '']''))"
| "py_repr (JDict d) =
     (case py_repr_items d of
        Inl e \<Rightarrow> Inl e
      | Inr ss \<Rightarrow> Inr (''{'' @ join_sep '', '' ss @ ''}''))"
| "py_repr_list [] = Inr []"
| "py_repr_list (x # xs) =
     (case py_repr x of
        Inl e \<Rightarrow> Inl e
      | Inr s \<Rightarrow> (case py_repr_list xs of Inl e \<Rightarrow> Inl e | Inr ss \<Rightarrow> Inr (s # ss)))"
| "py_repr_items [] = Inr []"
| "py_repr_items (kv # kvs) =
     (case py_repr (snd kv) of
        Inl e \<Rightarrow> Inl e
      | Inr s \<Rightarrow>
          (case py_repr_items kvs of
             Inl e \<Rightarrow> Inl e
           | Inr ss \<Rightarrow> Inr ((py_repr_str (fst kv) @ '': '' @ s) # ss)))"

text \<open>\<^verbatim>\<open>str(v)\<close>: a string is itself, every other value is its \<^verbatim>\<open>repr\<close>.\<close>

definition py_str :: "json \<Rightarrow> error + string" where
  "py_str v = (case v of JStr s \<Rightarrow> Inr s | _ \<Rightarrow> py_repr v)"

section \<open>\<^verbatim>\<open>parse_json2_tables\<close> of \<^verbatim>\<open>scan_pdf.py\<close>\<close>

record table =
  page :: int
  headers :: "string list"
  rows :: "string list list"

text \<open>
  The body of the innermost loop for a cell that is a dict:
  \<^verbatim>\<open>
  txt = cell.get("text", "")
  if isinstance(txt, dict):
      txt = txt.get("text", "")
  cols.append(str(txt).strip())
  \<close>
\<close>

definition cell_text :: "(string \<times> json) list \<Rightarrow> error + string" where
  "cell_text cell =
     (let txt = (case map_of cell ''text'' of Some v \<Rightarrow> v | None \<Rightarrow> JStr '''');
          txt2 = (case txt of
                    JDict d \<Rightarrow> (case map_of d ''text'' of Some v \<Rightarrow> v | None \<Rightarrow> JStr '''')
                  | _ \<Rightarrow> txt)
      in case py_str txt2 of Inl e \<Rightarrow> Inl e | Inr s \<Rightarrow> Inr (py_strip s))"

text \<open>
  \<^verbatim>\<open>
  for cell in ...:
      if not isinstance(cell, dict):
          continue
      ...
  \<close>
  The list \<open>cols\<close> the loop builds is the function's result.
\<close>

fun parse_cells :: "json list \<Rightarrow> error + string list" where
  "parse_cells [] = Inr []"
| "parse_cells (cell # cs) =
     (case cell of
        JDict c \<Rightarrow>
          (case cell_text c of
             Inl e \<Rightarrow> Inl e
           | Inr s \<Rightarrow> (case parse_cells cs of Inl e \<Rightarrow> Inl e | Inr ss \<Rightarrow> Inr (s # ss)))
      | _ \<Rightarrow> parse_cells cs)"

text \<open>
  One row that is a dict: \<^verbatim>\<open>for cell in r.get("column", [])\<close> iterates whatever the
  field holds.
\<close>

definition parse_row :: "(string \<times> json) list \<Rightarrow> error + string list" where
  "parse_row r =
     (case py_iter (case map_of r ''column'' of Some v \<Rightarrow> v | None \<Rightarrow> JList []) of
        Inl e \<Rightarrow> Inl e
      | Inr cells \<Rightarrow> parse_cells cells)"

text \<open>
  \<^verbatim>\<open>
  mat = []
  for r in rows:
      if not isinstance(r, dict):
          continue
      cols = [] ...
      mat.append(cols)
  \<close>
\<close>

fun parse_rows :: "json list \<Rightarrow> error + string list list" where
  "parse_rows [] = Inr []"
| "parse_rows (r # rs) =
     (case r of
        JDict d \<Rightarrow>
          (case parse_row d of
             Inl e \<Rightarrow> Inl e
           | Inr cols \<Rightarrow> (case parse_rows rs of Inl e \<Rightarrow> Inl e | Inr mat \<Rightarrow> Inr (cols # mat)))
      | _ \<Rightarrow> parse_rows rs)"

text \<open>\<^verbatim>\<open>pg.get("index", 0)\<close>\<close>

definition index_or_zero :: "(string \<times> json) list \<Rightarrow> json" where
  "index_or_zero pg = (case map_of pg ''index'' of Some v \<Rightarrow> v | None \<Rightarrow> JInt 0)"

text \<open>
  The body of the page loop for an entry that is a dict; \<open>None\<close> is \<^verbatim>\<open>continue\<close>, \<open>Some\<close>
  is the record appended to \<^verbatim>\<open>results\<close>. The page number is computed first, so a bad
  \<^verbatim>\<open>index\<close> raises even when the page has no rows.
\<close>

definition parse_page :: "(string \<times> json) list \<Rightarrow> error + table option" where
  "parse_page pg =
     (case py_int (index_or_zero pg) of
        Inl e \<Rightarrow> Inl e
      | Inr i \<Rightarrow>
          (case (case map_of pg ''row'' of Some v \<Rightarrow> v | None \<Rightarrow> JList []) of
             JList rs \<Rightarrow>
               (if rs = [] then Inr None
                else (case parse_rows rs of
                        Inl e \<Rightarrow> Inl e
                      | Inr [] \<Rightarrow> Inr None
                      | Inr (h # data) \<Rightarrow>
                          Inr (Some \<lparr>page = i + 1, headers = h, rows = data\<rparr>)))
           | _ \<Rightarrow> Inr None))"

fun parse_page_list :: "json list \<Rightarrow> error + table list" where
  "parse_page_list [] = Inr []"
| "parse_page_list (pg # pgs) =
     (case pg of
        JDict d \<Rightarrow>
          (case parse_page d of
             Inl e \<Rightarrow> Inl e
           | Inr None \<Rightarrow> parse_page_list pgs
           | Inr (Some t) \<Rightarrow>
               (case parse_page_list pgs of Inl e \<Rightarrow> Inl e | Inr ts \<Rightarrow> Inr (t # ts)))
      | _ \<Rightarrow> parse_page_list pgs)"

text \<open>
  \<^verbatim>\<open>
  docs = body.get("document", {})
  pages = docs.get("page", [])
  if not isinstance(pages, list):
      if isinstance(pages, dict):
          pages = [pages]
      else:
          return []
  \<close>
\<close>

definition parse_json2_tables :: "json \<Rightarrow> error + table list" where
  "parse_json2_tables body =
     (case py_get body ''document'' (JDict []) of
        Inl e \<Rightarrow> Inl e
      | Inr docs \<Rightarrow>
          (case py_get docs ''page'' (JList []) of
             Inl e \<Rightarrow> Inl e
           | Inr (JList pgs) \<Rightarrow> parse_page_list pgs
           | Inr (JDict d) \<Rightarrow> parse_page_list [JDict d]
           | Inr _ \<Rightarrow> Inr []))"

section \<open>\<^verbatim>\<open>parse_json2_tables\<close> of the older script (\<^verbatim>\<open>src/.py\<close>)\<close>

text \<open>
  The older copy of the function has none of the \<^verbatim>\<open>isinstance\<close> guards: it calls
  \<^verbatim>\<open>.get\<close> and \<^verbatim>\<open>.strip\<close> on whatever it finds, and reads \<^verbatim>\<open>mat[0]\<close> unguarded.
  \<^verbatim>\<open>
  txt = cell.get("text", "")
  if isinstance(txt, dict):
      txt = txt.get("text","")
  cols.append(txt.strip())
  \<close>
  Only a \<^verbatim>\<open>str\<close> has the method \<^verbatim>\<open>strip\<close>.
\<close>

definition cell_text_dotpy :: "json \<Rightarrow> error + string" where
  "cell_text_dotpy cell =
     (case py_get cell ''text'' (JStr []) of
        Inl e \<Rightarrow> Inl e
      | Inr txt \<Rightarrow>
          (case (case txt of JDict d \<Rightarrow> py_get txt ''text'' (JStr []) | _ \<Rightarrow> Inr txt) of
             Inl e \<Rightarrow> Inl e
           | Inr (JStr s) \<Rightarrow> Inr (py_strip s)
           | Inr _ \<Rightarrow> Inl AttributeError))"

fun parse_cells_dotpy :: "json list \<Rightarrow> error + string list" where
  "parse_cells_dotpy [] = Inr []"
| "parse_cells_dotpy (cell # cs) =
     (case cell_text_dotpy cell of
        Inl e \<Rightarrow> Inl e
      | Inr s \<Rightarrow> (case parse_cells_dotpy cs of Inl e \<Rightarrow> Inl e | Inr ss \<Rightarrow> Inr (s # ss)))"

definition parse_row_dotpy :: "json \<Rightarrow> error + string list" where
  "parse_row_dotpy r =
     (case py_get r ''column'' (JList []) of
        Inl e \<Rightarrow> Inl e
      | Inr col \<Rightarrow>
          (case py_iter col of Inl e \<Rightarrow> Inl e | Inr cells \<Rightarrow> parse_cells_dotpy cells))"

fun parse_rows_dotpy :: "json list \<Rightarrow> error + string list list" where
  "parse_rows_dotpy [] = Inr []"
| "parse_rows_dotpy (r # rs) =
     (case parse_row_dotpy r of
        Inl e \<Rightarrow> Inl e
      | Inr cols \<Rightarrow>
          (case parse_rows_dotpy rs of Inl e \<Rightarrow> Inl e | Inr mat \<Rightarrow> Inr (cols # mat)))"

text \<open>
  \<^verbatim>\<open>
  idx = int(pg.get("index", 0)) + 1
  rows = pg.get("row", [])
  if not rows:
      continue
  ...
  headers = mat[0]
  data    = mat[1:]
  \<close>
\<close>

definition parse_page_dotpy :: "json \<Rightarrow> error + table option" where
  "parse_page_dotpy pg =
     (case py_get pg ''index'' (JInt 0) of
        Inl e \<Rightarrow> Inl e
      | Inr ix \<Rightarrow>
          (case py_int ix of
             Inl e \<Rightarrow> Inl e
           | Inr i \<Rightarrow>
               (case py_get pg ''row'' (JList []) of
                  Inl e \<Rightarrow> Inl e
                | Inr rws \<Rightarrow>
                    (if \<not> py_truth rws then Inr None
                     else (case py_iter rws of
                             Inl e \<Rightarrow> Inl e
                           | Inr rs \<Rightarrow>
                               (case parse_rows_dotpy rs of
                                  Inl e \<Rightarrow> Inl e
                                | Inr [] \<Rightarrow> Inl IndexError
                                | Inr (h # data) \<Rightarrow>
                                    Inr (Some \<lparr>page = i + 1, headers = h, rows = data\<rparr>)))))))"

fun parse_page_list_dotpy :: "json list \<Rightarrow> error + table list" where
  "parse_page_list_dotpy [] = Inr []"
| "parse_page_list_dotpy (pg # pgs) =
     (case parse_page_dotpy pg of
        Inl e \<Rightarrow> Inl e
      | Inr None \<Rightarrow> parse_page_list_dotpy pgs
      | Inr (Some t) \<Rightarrow>
          (case parse_page_list_dotpy pgs of Inl e \<Rightarrow> Inl e | Inr ts \<Rightarrow> Inr (t # ts)))"

text \<open>
  \<^verbatim>\<open>
  docs = body.get("document", {})
  pages = docs.get("page")
  if isinstance(pages, dict):
      pages = [pages]
  results = []
  for pg in pages: ...
  \<close>
\<close>

definition parse_json2_tables_dotpy :: "json \<Rightarrow> error + table list" where
  "parse_json2_tables_dotpy body =
     (case py_get body ''document'' (JDict []) of
        Inl e \<Rightarrow> Inl e
      | Inr docs \<Rightarrow>
          (case py_get docs ''page'' JNull of
             Inl e \<Rightarrow> Inl e
           | Inr pages \<Rightarrow>
               (case py_iter (case pages of JDict d \<Rightarrow> JList [pages] | _ \<Rightarrow> pages) of
                  Inl e \<Rightarrow> Inl e
                | Inr pgs \<Rightarrow> parse_page_list_dotpy pgs)))"

section \<open>The OCR path and the driver of \<^verbatim>\<open>main.py\<close>\<close>

text \<open>
  \<^verbatim>\<open>s.split()\<close>: the maximal runs of characters that are not whitespace. The first
  argument is the run read so far, in reverse.
\<close>

fun split_aux :: "string \<Rightarrow> string \<Rightarrow> string list" where
  "split_aux cur [] = (if cur = [] then [] else [rev cur])"
| "split_aux cur (c # cs) =
     (if py_isspace c
      then (if cur = [] then split_aux [] cs else rev cur # split_aux [] cs)
      else split_aux (c # cur) cs)"

definition py_split :: "string \<Rightarrow> string list" where
  "py_split s = split_aux [] s"

text \<open>
  \<^verbatim>\<open>s.splitlines()\<close>: a line ends at LF, CR, CR LF, VT, FF, 0x1C, 0x1D, 0x1E or NEL; the
  line ends are dropped and a final line end opens no further line.
\<close>

definition is_linebreak :: "char \<Rightarrow> bool" where
  "is_linebreak c = ((of_char c :: nat) \<in> set [10, 11, 12, 13, 28, 29, 30, 133])"

fun splitlines_aux :: "string \<Rightarrow> string \<Rightarrow> string list" where
  "splitlines_aux cur [] = (if cur = [] then [] else [rev cur])"
| "splitlines_aux cur [c] = (if is_linebreak c then [rev cur] else [rev (c # cur)])"
| "splitlines_aux cur (c # d # cs) =
     (if (of_char c :: nat) = 13 \<and> (of_char d :: nat) = 10
        then rev cur # splitlines_aux [] cs
      else if is_linebreak c then rev cur # splitlines_aux [] (d # cs)
      else splitlines_aux (c # cur) (d # cs))"

definition py_splitlines :: "string \<Rightarrow> string list" where
  "py_splitlines s = splitlines_aux [] s"

text \<open>
  What the script reads of a PDF and of the two OCR engines. \<open>page_text n\<close> is
  \<^verbatim>\<open>doc.load_page(n).get_text("text")\<close>, or the exception the library raises for that page
  number. \<open>paddle n\<close> is \<^verbatim>\<open>ocr.ocr(arr, cls=True)\<close> on the image of page \<open>n\<close> (0-based):
  \<open>None\<close> when the result is not a list, else its blocks; a block is \<^verbatim>\<open>None\<close> or a list of
  lines, a line given by its text \<^verbatim>\<open>line[1][0]\<close>. \<open>tesseract n\<close> is
  \<^verbatim>\<open>pytesseract.image_to_string\<close> on the same image. \<open>lattice\<close> and \<open>stream\<close> are
  \<^verbatim>\<open>camelot.read_pdf\<close> with that flavor on the pages given.
\<close>

record camelot_table =
  c_page :: int
  c_df :: "string list list"

record pdf_doc =
  page_count :: int
  page_text :: "int \<Rightarrow> error + string"
  paddle :: "int \<Rightarrow> string list option list option"
  tesseract :: "int \<Rightarrow> string"
  lattice :: "int list \<Rightarrow> camelot_table list"
  stream :: "int list \<Rightarrow> camelot_table list"

record scanned_table = table +
  title :: string
  ocr_method :: string

record digital_table =
  d_page :: int
  d_headers :: string
  raw_rows :: "string list list"
  processed_rows :: "string list list"

text \<open>
  \<^verbatim>\<open>
  for block in ocr_data:
      if not block: continue
      for line in block:
          text = line[1][0].strip()
          if text: lines.append(text)
  \<close>
\<close>

definition paddle_lines :: "string list option list \<Rightarrow> string list" where
  "paddle_lines blocks =
     concat (map (\<lambda>b. case b of None \<Rightarrow> []
                          | Some ls \<Rightarrow> filter (\<lambda>t. t \<noteq> []) (map py_strip ls)) blocks)"

text \<open>The lines of page \<open>n\<close> (0-based), with the fallback to Tesseract when there are none.\<close>

definition page_lines :: "pdf_doc \<Rightarrow> int \<Rightarrow> string list" where
  "page_lines doc n =
     (let lines = (case paddle doc n of None \<Rightarrow> [] | Some blocks \<Rightarrow> paddle_lines blocks)
      in if lines = []
         then filter (\<lambda>t. t \<noteq> []) (map py_strip (py_splitlines (tesseract doc n)))
         else lines)"

text \<open>
  \<^verbatim>\<open>
  rows_all = [ln.split() for ln in lines]
  headers = rows_all[0] if rows_all else []
  data_rows = rows_all[1:] if len(rows_all) > 1 else []
  headers = [h.strip() for h in headers]
  data_rows = [row[:len(headers)] for row in data_rows]  # Align rows to headers
  title = lines[0] if lines else ""
  \<close>
\<close>

definition scan_page :: "pdf_doc \<Rightarrow> int \<Rightarrow> scanned_table" where
  "scan_page doc p =
     (let lines = page_lines doc (p - 1);
          rows_all = map py_split lines;
          hs = map py_strip (case rows_all of [] \<Rightarrow> [] | h # _ \<Rightarrow> h);
          data_rows = (if length rows_all > 1 then tl rows_all else [])
      in \<lparr>page = p,
          headers = hs,
          rows = map (take (length hs)) data_rows,
          title = (case lines of [] \<Rightarrow> [] | l # _ \<Rightarrow> l),
          ocr_method = (if lines \<noteq> [] \<and> paddle doc (p - 1) \<noteq> None
                        then ''PaddleOCR'' else ''Tesseract'')\<rparr>)"

fun extract_tables_scanned :: "pdf_doc \<Rightarrow> int list \<Rightarrow> scanned_table list" where
  "extract_tables_scanned doc [] = []"
| "extract_tables_scanned doc (p # ps) =
     (if p < 1 \<or> p > page_count doc then extract_tables_scanned doc ps
      else scan_page doc p # extract_tables_scanned doc ps)"

text \<open>
  \<^verbatim>\<open>header.strip().replace("\n", " ").replace(",", "")\<close>
\<close>

definition clean_header :: "string \<Rightarrow> string" where
  "clean_header h =
     filter (\<lambda>c. c \<noteq> CHR '','')
       (map (\<lambda>c. if (of_char c :: nat) = 10 then CHR '' '' else c) (py_strip h))"

text \<open>
  A frame is given by its rows; \<^verbatim>\<open>df.empty\<close> holds when it has no row or no column.
\<close>

fun digital_tables :: "camelot_table list \<Rightarrow> digital_table list" where
  "digital_tables [] = []"
| "digital_tables (t # ts) =
     (case c_df t of
        [] \<Rightarrow> digital_tables ts
      | h # raw \<Rightarrow>
          (if h = [] then digital_tables ts
           else \<lparr>d_page = c_page t,
                 d_headers = join_sep '','' (map clean_header h),
                 raw_rows = raw,
                 processed_rows = raw\<rparr> # digital_tables ts))"

definition extract_tables_digital :: "pdf_doc \<Rightarrow> int list \<Rightarrow> error + digital_table list" where
  "extract_tables_digital doc pages =
     (let ps = filter (\<lambda>p. 1 \<le> p \<and> p \<le> page_count doc) pages
      in if ps = [] then Inl NoValidPages
         else Inr (digital_tables
                     (if lattice doc ps = [] then stream doc ps else lattice doc ps)))"

text \<open>
  \<^verbatim>\<open>is_scanned\<close>: the page's text, stripped, has fewer than 20 characters.
\<close>

definition is_scanned :: "pdf_doc \<Rightarrow> int \<Rightarrow> error + bool" where
  "is_scanned doc page_no =
     (case page_text doc page_no of
        Inl e \<Rightarrow> Inl e
      | Inr t \<Rightarrow> Inr (length (py_strip t) < 20))"

text \<open>
  The driver, up to the tables it hands to the writer of the output file. The work it
  starts is logged in order, so that a property can say what happened before a failure.
  \<^verbatim>\<open>
  scanned = is_scanned(pdf_path, page_no=pages[0] - 1)
  if scanned:
      tables = extract_tables_scanned(pdf_path, pages, ocr)
  else:
      tables = extract_tables_digital(pdf_path, pages)
  if not pages:
      raise ValueError(f"No valid pages to process in {pdf_path}")
  \<close>
\<close>

datatype event = Classify int | ExtractScanned "int list" | ExtractDigital "int list"

datatype tables = Scanned "scanned_table list" | Digital "digital_table list"

definition process_pdf :: "pdf_doc \<Rightarrow> int list \<Rightarrow> event list \<times> (error + tables)" where
  "process_pdf doc pages =
     (case pages of
        [] \<Rightarrow> ([], Inl IndexError)
      | p # _ \<Rightarrow>
          (case is_scanned doc (p - 1) of
             Inl e \<Rightarrow> ([Classify (p - 1)], Inl e)
           | Inr scanned \<Rightarrow>
               (if scanned
                then ([Classify (p - 1), ExtractScanned pages],
                      if pages = [] then Inl NoValidPages
                      else Inr (Scanned (extract_tables_scanned doc pages)))
                else ([Classify (p - 1), ExtractDigital pages],
                      case extract_tables_digital doc pages of
                        Inl e \<Rightarrow> Inl e
                      | Inr ts \<Rightarrow>
                          if pages = [] then Inl NoValidPages else Inr (Digital ts)))))"

section \<open>Inputs the properties speak of\<close>

text \<open>
  A body whose \<^verbatim>\<open>document\<close> is a mapping with the value \<open>v\<close> under \<^verbatim>\<open>page\<close>: \<open>b\<close> are
  the fields of the body and \<open>doc\<close> those of the document. Every such body has this
  form, since storing a value a key already has changes nothing.
\<close>

definition with_page :: "(string \<times> json) list \<Rightarrow> (string \<times> json) list \<Rightarrow> json \<Rightarrow> json" where
  "with_page b doc v =
     JDict (AList.update ''document'' (JDict (AList.update ''page'' v doc)) b)"

text \<open>
  The entries the page loop of \<^verbatim>\<open>scan_pdf.py\<close> runs over (lines 157 to 163).
\<close>

definition page_entries :: "json \<Rightarrow> json list" where
  "page_entries body =
     (case py_get body ''document'' (JDict []) of
        Inl e \<Rightarrow> []
      | Inr docs \<Rightarrow>
          (case py_get docs ''page'' (JList []) of
             Inr (JList pgs) \<Rightarrow> pgs
           | Inr (JDict d) \<Rightarrow> [JDict d]
           | _ \<Rightarrow> []))"

text \<open>
  A page entry that ends in a record: a mapping for which the body of the page loop
  reaches \<^verbatim>\<open>results.append\<close>.
\<close>

definition emits :: "json \<Rightarrow> bool" where
  "emits p =
     (case p of
        JDict d \<Rightarrow> (case parse_page d of Inr (Some t) \<Rightarrow> True | _ \<Rightarrow> False)
      | _ \<Rightarrow> False)"

text \<open>
  The well-formed PageTree of the specification, level by level. A cell is a mapping
  whose \<^verbatim>\<open>text\<close> is a string (\<open>plain_cell\<close>), or a string or a mapping with a string
  \<^verbatim>\<open>text\<close> (\<open>wf_cell\<close>); a row is a mapping whose \<^verbatim>\<open>column\<close> is a list of cells; a page is
  a mapping with an integer \<^verbatim>\<open>index\<close> and a list \<^verbatim>\<open>row\<close> of rows.
\<close>

definition plain_cell :: "json \<Rightarrow> bool" where
  "plain_cell c =
     (case c of
        JDict d \<Rightarrow> (case map_of d ''text'' of Some (JStr s) \<Rightarrow> True | _ \<Rightarrow> False)
      | _ \<Rightarrow> False)"

definition wf_cell :: "json \<Rightarrow> bool" where
  "wf_cell c =
     (case c of
        JDict d \<Rightarrow>
          (case map_of d ''text'' of
             Some (JStr s) \<Rightarrow> True
           | Some (JDict e) \<Rightarrow> (case map_of e ''text'' of Some (JStr s) \<Rightarrow> True | _ \<Rightarrow> False)
           | _ \<Rightarrow> False)
      | _ \<Rightarrow> False)"

definition wf_row :: "(json \<Rightarrow> bool) \<Rightarrow> json \<Rightarrow> bool" where
  "wf_row cellp r =
     (case r of
        JDict d \<Rightarrow> (case map_of d ''column'' of Some (JList cs) \<Rightarrow> list_all cellp cs | _ \<Rightarrow> False)
      | _ \<Rightarrow> False)"

definition wf_page :: "(json \<Rightarrow> bool) \<Rightarrow> json \<Rightarrow> bool" where
  "wf_page cellp p =
     (case p of
        JDict d \<Rightarrow>
          (case map_of d ''index'' of
             Some (JInt i) \<Rightarrow>
               (case map_of d ''row'' of Some (JList rs) \<Rightarrow> list_all (wf_row cellp) rs | _ \<Rightarrow> False)
           | _ \<Rightarrow> False)
      | _ \<Rightarrow> False)"

text \<open>The \<^verbatim>\<open>index\<close> and the \<^verbatim>\<open>row\<close> list of a well-formed page.\<close>

definition page_index :: "json \<Rightarrow> int" where
  "page_index p =
     (case p of
        JDict d \<Rightarrow> (case map_of d ''index'' of Some (JInt i) \<Rightarrow> i | _ \<Rightarrow> 0)
      | _ \<Rightarrow> 0)"

definition page_rows :: "json \<Rightarrow> json list" where
  "page_rows p =
     (case p of
        JDict d \<Rightarrow> (case map_of d ''row'' of Some (JList rs) \<Rightarrow> rs | _ \<Rightarrow> [])
      | _ \<Rightarrow> [])"

text \<open>The example document of the specification.\<close>

definition example_body :: json where
  "example_body =
     JDict [(''document'', JDict [(''page'', JDict
       [(''index'', JInt 0),
        (''row'', JList
          [JDict [(''column'', JList [JDict [(''text'', JStr ''A'')],
                                      JDict [(''text'', JStr ''B'')]])],
           JDict [(''column'', JList [JDict [(''text'', JDict [(''text'', JStr ''1'')])],
                                      JDict [(''text'', JStr ''2'')]])]])])])]"

text \<open>
  A document whose only row has the number 5 where the list of cells is expected.
\<close>

definition non_iterable_column_body :: json where
  "non_iterable_column_body =
     JDict [(''document'', JDict [(''page'', JList
       [JDict [(''index'', JInt 0),
               (''row'', JList [JDict [(''column'', JInt 5)]])]])])]"

text \<open>
  A cell whose \<^verbatim>\<open>text\<close> is an object whose \<^verbatim>\<open>text\<close> is again an object, and a document
  with that cell as its only one.
\<close>

definition doubly_nested_cell :: "(string \<times> json) list" where
  "doubly_nested_cell = [(''text'', JDict [(''text'', JDict [(''text'', JStr ''x'')])])]"

definition doubly_nested_body :: json where
  "doubly_nested_body =
     JDict [(''document'', JDict [(''page'', JList
       [JDict [(''index'', JInt 0),
               (''row'', JList [JDict [(''column'', JList [JDict doubly_nested_cell])]])]])])]"

text \<open>A document with one page whose \<^verbatim>\<open>index\<close> is -5.\<close>

definition negative_index_body :: json where
  "negative_index_body =
     JDict [(''document'', JDict [(''page'', JList
       [JDict [(''index'', JInt (- 5)),
               (''row'', JList [JDict [(''column'', JList [JDict [(''text'', JStr ''A'')]])]])]])])]"

text \<open>
  A scanned document of one page on which PaddleOCR reads three lines: three headers, a
  row of two cells and a row of four.
\<close>

definition short_row_doc :: pdf_doc where
  "short_row_doc =
     \<lparr>page_count = 1,
      page_text = (\<lambda>n. Inr []),
      paddle = (\<lambda>n. Some [Some [''A B C'', ''1 2'', ''3 4 5 6'']]),
      tesseract = (\<lambda>n. []),
      lattice = (\<lambda>ps. []),
      stream = (\<lambda>ps. [])\<rparr>"

text \<open>
  A digital document of three pages. PyMuPDF counts a negative page number from the end
  and raises \<^verbatim>\<open>ValueError\<close> for one that is too large.
\<close>

definition three_page_doc :: pdf_doc where
  "three_page_doc =
     \<lparr>page_count = 3,
      page_text = (\<lambda>n. if n < 3 then Inr ''Quarterly revenue by region'' else Inl ValueError),
      paddle = (\<lambda>n. None),
      tesseract = (\<lambda>n. []),
      lattice = (\<lambda>ps. []),
      stream = (\<lambda>ps. [])\<rparr>"

text \<open>
  Three well-formed pages, the second with no rows; a page whose cell text is wrapped in
  an object; a page entry with no \<^verbatim>\<open>row\<close> field; a page entry whose \<^verbatim>\<open>row\<close> is the empty
  list and comes before its \<^verbatim>\<open>index\<close>.
\<close>

definition example_pages :: "json list" where
  "example_pages =
     [JDict [(''index'', JInt 0),
             (''row'', JList [JDict [(''column'', JList [JDict [(''text'', JStr ''A'')]])],
                              JDict [(''column'', JList [JDict [(''text'', JStr ''1'')]])]])],
      JDict [(''index'', JInt 1), (''row'', JList [])],
      JDict [(''index'', JInt 2),
             (''row'', JList [JDict [(''column'', JList [JDict [(''text'', JStr ''B'')]])]])]]"

definition nested_pages :: "json list" where
  "nested_pages =
     [JDict [(''index'', JInt 0),
             (''row'', JList
                [JDict [(''column'', JList [JDict [(''text'', JDict [(''text'', JStr '' A '')])],
                                            JDict [(''text'', JStr ''B'')]])]])]]"

definition rowless_page :: "(string \<times> json) list" where
  "rowless_page = [(''index'', JInt 1)]"

definition empty_row_page :: "(string \<times> json) list" where
  "empty_row_page = [(''row'', JList []), (''index'', JInt 1)]"

text \<open>
  A document of three page entries: index -5 with one row, index 7 with no row, index 2
  with one row.
\<close>

definition mixed_index_body :: json where
  "mixed_index_body =
     JDict [(''document'', JDict [(''page'', JList
       [JDict [(''index'', JInt (- 5)),
               (''row'', JList [JDict [(''column'', JList [JDict [(''text'', JStr ''A'')]])]])],
        JDict [(''index'', JInt 7), (''row'', JList [])],
        JDict [(''index'', JInt 2),
               (''row'', JList [JDict [(''column'', JList [JDict [(''text'', JStr ''B'')]])]])]])])]"

section \<open>Properties\<close>

subsection \<open>The shape of the computation\<close>

lemma parse_json2_tables_with_page:
  "parse_json2_tables (with_page b doc v) =
     (case v of JList pgs \<Rightarrow> parse_page_list pgs
              | JDict d \<Rightarrow> parse_page_list [JDict d]
              | _ \<Rightarrow> Inr [])"
  by (simp add: parse_json2_tables_def with_page_def py_get_def update_conv split: json.splits)

lemma with_page_covers:
  "map_of b ''document'' = Some (JDict doc) \<Longrightarrow> map_of doc ''page'' = Some v \<Longrightarrow>
     with_page b doc v = JDict b"
  by (simp add: with_page_def update_triv)

lemma page_entries_with_page:
  "page_entries (with_page b doc v) =
     (case v of JList pgs \<Rightarrow> pgs | JDict d \<Rightarrow> [JDict d] | _ \<Rightarrow> [])"
  by (simp add: page_entries_def with_page_def py_get_def update_conv split: json.splits)

lemma parse_json2_tables_entries:
  "parse_json2_tables body = Inr ts \<Longrightarrow> parse_page_list (page_entries body) = Inr ts"
  by (auto simp: parse_json2_tables_def page_entries_def split: sum.splits json.splits)

lemma parse_page_list_append:
  "parse_page_list (xs @ ys) =
     (case parse_page_list xs of
        Inl e \<Rightarrow> Inl e
      | Inr ts \<Rightarrow> (case parse_page_list ys of Inl e \<Rightarrow> Inl e | Inr us \<Rightarrow> Inr (ts @ us)))"
  by (induction xs) (auto split: json.splits sum.splits option.splits)

lemma parse_page_missing_row:
  "map_of pg ''row'' = None \<Longrightarrow>
     parse_page pg = (case py_int (index_or_zero pg) of Inl e \<Rightarrow> Inl e | Inr i \<Rightarrow> Inr None)"
  by (simp add: parse_page_def index_or_zero_def split: sum.splits)

lemma parse_page_empty_row:
  "map_of pg ''row'' = Some (JList []) \<Longrightarrow>
     parse_page pg = (case py_int (index_or_zero pg) of Inl e \<Rightarrow> Inl e | Inr i \<Rightarrow> Inr None)"
  by (simp add: parse_page_def index_or_zero_def split: sum.splits)

subsection \<open>Well-formed page trees\<close>

lemma wf_row_cases:
  "wf_row cellp r \<Longrightarrow>
     \<exists>d cs. r = JDict d \<and> map_of d ''column'' = Some (JList cs) \<and> list_all cellp cs"
  by (cases r) (auto simp: wf_row_def split: option.split_asm json.split_asm)

lemma wf_page_cases:
  "wf_page cellp p \<Longrightarrow>
     \<exists>d i rs. p = JDict d \<and> map_of d ''index'' = Some (JInt i) \<and>
       map_of d ''row'' = Some (JList rs) \<and> list_all (wf_row cellp) rs"
  by (cases p) (auto simp: wf_page_def split: option.split_asm json.split_asm)

lemma wf_cell_cases:
  assumes "wf_cell c"
  shows "\<exists>d. c = JDict d \<and>
       ((\<exists>s. map_of d ''text'' = Some (JStr s)) \<or>
        (\<exists>e s. map_of d ''text'' = Some (JDict e) \<and> map_of e ''text'' = Some (JStr s)))"
proof (cases c)
  case (JDict d)
  show ?thesis
  proof (cases "map_of d ''text''")
    case None
    with assms JDict show ?thesis by (simp add: wf_cell_def)
  next
    case (Some v)
    show ?thesis
    proof (cases v)
      case (JStr s)
      with Some JDict show ?thesis by simp
    next
      case inner: (JDict e)
      show ?thesis
      proof (cases "map_of e ''text''")
        case None
        with assms JDict Some inner show ?thesis by (simp add: wf_cell_def)
      next
        case some2: (Some w)
        with assms JDict Some inner show ?thesis
          by (cases w) (simp_all add: wf_cell_def)
      qed
    qed (use assms JDict Some in \<open>simp_all add: wf_cell_def\<close>)
  qed
qed (use assms in \<open>simp_all add: wf_cell_def\<close>)

lemma cell_text_str:
  "map_of c ''text'' = Some (JStr s) \<Longrightarrow>
     cell_text c = Inr (py_strip s) \<and> cell_text_dotpy (JDict c) = Inr (py_strip s)"
  by (simp add: cell_text_def cell_text_dotpy_def py_get_def py_str_def)

lemma cell_text_nested_str:
  "map_of c ''text'' = Some (JDict e) \<Longrightarrow> map_of e ''text'' = Some (JStr s) \<Longrightarrow>
     cell_text c = Inr (py_strip s) \<and> cell_text_dotpy (JDict c) = Inr (py_strip s)"
  by (simp add: cell_text_def cell_text_dotpy_def py_get_def py_str_def)

lemma wf_cell_text:
  "wf_cell (JDict c) \<Longrightarrow> \<exists>s. cell_text c = Inr s \<and> cell_text_dotpy (JDict c) = Inr s"
  using wf_cell_cases [of "JDict c"] cell_text_str [of c] cell_text_nested_str [of c]
  by blast

lemma wf_cells:
  "list_all wf_cell cs \<Longrightarrow> \<exists>ss. parse_cells cs = Inr ss \<and> parse_cells_dotpy cs = Inr ss"
proof (induction cs)
  case Nil
  then show ?case by simp
next
  case (Cons c cs)
  then obtain d where d: "c = JDict d"
    by (cases c) (auto simp: wf_cell_def)
  with Cons.prems have "wf_cell (JDict d)" by simp
  from wf_cell_text [OF this] obtain s where
    "cell_text d = Inr s" "cell_text_dotpy (JDict d) = Inr s" by blast
  moreover from Cons obtain ss where
    "parse_cells cs = Inr ss" "parse_cells_dotpy cs = Inr ss" by auto
  ultimately show ?case using d by simp
qed

lemma wf_row_parse:
  "wf_row wf_cell r \<Longrightarrow>
     \<exists>d cols. r = JDict d \<and> parse_row d = Inr cols \<and> parse_row_dotpy r = Inr cols"
proof -
  assume wf: "wf_row wf_cell r"
  from wf_row_cases [OF this] obtain d cs where d: "r = JDict d"
    "map_of d ''column'' = Some (JList cs)" "list_all wf_cell cs" by blast
  from wf_cells [OF d(3)] obtain ss where
    "parse_cells cs = Inr ss" "parse_cells_dotpy cs = Inr ss" by blast
  with d show ?thesis
    by (simp add: parse_row_def parse_row_dotpy_def py_get_def py_iter_def)
qed

lemma wf_rows_parse:
  "list_all (wf_row wf_cell) rs \<Longrightarrow>
     \<exists>mat. parse_rows rs = Inr mat \<and> parse_rows_dotpy rs = Inr mat \<and> length mat = length rs"
proof (induction rs)
  case Nil
  then show ?case by simp
next
  case (Cons r rs)
  then have "wf_row wf_cell r" by simp
  from wf_row_parse [OF this] obtain d cols where
    "r = JDict d" "parse_row d = Inr cols" "parse_row_dotpy r = Inr cols" by blast
  moreover from Cons obtain mat where
    "parse_rows rs = Inr mat" "parse_rows_dotpy rs = Inr mat" "length mat = length rs" by auto
  ultimately show ?case by simp
qed

lemma wf_page_parse:
  assumes "wf_page wf_cell p"
  shows "\<exists>d. p = JDict d \<and> parse_page_dotpy p = parse_page d \<and>
           (if page_rows p = [] then parse_page d = Inr None
            else \<exists>t. parse_page d = Inr (Some t) \<and> page t = page_index p + 1)"
proof -
  from wf_page_cases [OF assms] obtain d i rs where d: "p = JDict d"
    "map_of d ''index'' = Some (JInt i)" "map_of d ''row'' = Some (JList rs)"
    "list_all (wf_row wf_cell) rs" by blast
  from wf_rows_parse [OF d(4)] obtain mat where mat:
    "parse_rows rs = Inr mat" "parse_rows_dotpy rs = Inr mat" "length mat = length rs" by blast
  show ?thesis
  proof (cases rs)
    case Nil
    with d show ?thesis
      by (simp add: parse_page_def index_or_zero_def parse_page_dotpy_def py_get_def py_int_def py_truth_def
          page_rows_def)
  next
    case (Cons r rs')
    with mat obtain h data where "mat = h # data" by (cases mat) auto
    with d mat Cons show ?thesis
      by (simp add: parse_page_def index_or_zero_def parse_page_dotpy_def py_get_def py_int_def py_truth_def
          py_iter_def page_rows_def page_index_def)
  qed
qed

lemma plain_cell_wf: "plain_cell c \<Longrightarrow> wf_cell c"
  by (cases c) (auto simp: plain_cell_def wf_cell_def split: option.split_asm json.split_asm)

lemma plain_row_wf:
  assumes "wf_row plain_cell r"
  shows "wf_row wf_cell r"
proof -
  from wf_row_cases [OF assms] obtain d cs where "r = JDict d"
    "map_of d ''column'' = Some (JList cs)" "list_all plain_cell cs" by blast
  then show ?thesis
    by (simp add: wf_row_def list_all_iff plain_cell_wf)
qed

lemma plain_page_wf:
  assumes "wf_page plain_cell p"
  shows "wf_page wf_cell p"
proof -
  from wf_page_cases [OF assms] obtain d i rs where "p = JDict d"
    "map_of d ''index'' = Some (JInt i)" "map_of d ''row'' = Some (JList rs)"
    "list_all (wf_row plain_cell) rs" by blast
  then show ?thesis
    by (simp add: wf_page_def list_all_iff plain_row_wf)
qed

lemma wf_pages_parse:
  "list_all (wf_page wf_cell) ps \<Longrightarrow>
     \<exists>ts. parse_page_list ps = Inr ts \<and> parse_page_list_dotpy ps = Inr ts \<and>
          map page ts = map (\<lambda>p. page_index p + 1) (filter (\<lambda>p. page_rows p \<noteq> []) ps)"
proof (induction ps)
  case Nil
  then show ?case by simp
next
  case (Cons p ps)
  then have "wf_page wf_cell p" by simp
  from wf_page_parse [OF this] obtain d where d: "p = JDict d"
    "parse_page_dotpy p = parse_page d"
    "if page_rows p = [] then parse_page d = Inr None
     else \<exists>t. parse_page d = Inr (Some t) \<and> page t = page_index p + 1" by blast
  from Cons obtain ts where ts: "parse_page_list ps = Inr ts"
    "parse_page_list_dotpy ps = Inr ts"
    "map page ts = map (\<lambda>p. page_index p + 1) (filter (\<lambda>p. page_rows p \<noteq> []) ps)" by auto
  show ?case
  proof (cases "page_rows p = []")
    case True
    with d ts show ?thesis by simp
  next
    case False
    with d obtain t where "parse_page d = Inr (Some t)" "page t = page_index p + 1" by auto
    with d ts False show ?thesis by simp
  qed
qed

lemma parse_json2_tables_dotpy_with_page_list:
  "parse_json2_tables_dotpy (with_page b doc (JList ps)) = parse_page_list_dotpy ps"
  by (simp add: parse_json2_tables_dotpy_def with_page_def py_get_def py_iter_def update_conv)

subsection \<open>Malformed shapes\<close>

text \<open>
  C1: the specification says that \<^verbatim>\<open>parse_json2_tables\<close> never raises on a malformed
  shape, a \<^verbatim>\<open>column\<close> that is not a list included. The function guards the pages, the
  page entries, the rows, the row entries and the cells with \<^verbatim>\<open>isinstance\<close>, but it
  iterates \<^verbatim>\<open>r.get("column", [])\<close> unguarded: on a document whose row has the number 5
  as its \<^verbatim>\<open>column\<close> the call raises \<^verbatim>\<open>TypeError\<close> instead of skipping the row.
\<close>

theorem non_iterable_column_raises:
  "parse_json2_tables non_iterable_column_body = Inl TypeError"
  by (simp add: parse_json2_tables_def non_iterable_column_body_def py_get_def parse_page_def index_or_zero_def
      py_int_def parse_row_def py_iter_def)

subsection \<open>The example of the specification\<close>

text \<open>
  C2: on the example document of the specification, a single page given as a bare
  mapping with index 0, a header row A, B and one data row whose first cell wraps its
  text in an object, \<^verbatim>\<open>parse_json2_tables\<close> returns exactly one record: page 1, headers
  A, B and the single row 1, 2.
\<close>

theorem example_document_result:
  "parse_json2_tables example_body =
     Inr [\<lparr>page = 1, headers = [''A'', ''B''], rows = [[''1'', ''2'']]\<rparr>]"
  by (simp add: parse_json2_tables_def example_body_def py_get_def parse_page_def index_or_zero_def
      py_int_def parse_row_def py_iter_def cell_text_def py_str_def py_strip_def
      py_isspace_def)

subsection \<open>A single page given bare\<close>

text \<open>
  C3: for every mapping \<open>M\<close>, a body whose \<^verbatim>\<open>document.page\<close> is the bare mapping \<open>M\<close>
  gives the same outcome (the same records, or the same exception) as the same body with
  \<^verbatim>\<open>document.page\<close> replaced by the one-element list of \<open>M\<close>. Here \<open>b\<close> and \<open>doc\<close> are
  the other fields of the body and of the document, whatever they are.
\<close>

theorem single_page_same_as_wrapped:
  "parse_json2_tables (with_page b doc (JDict M)) =
   parse_json2_tables (with_page b doc (JList [JDict M]))"
  by (simp add: parse_json2_tables_with_page)

text \<open>
  C3 at a concrete input: the page entry with index 1 and no rows, bare and wrapped.
\<close>

theorem single_page_same_as_wrapped_witness:
  "parse_json2_tables (with_page [] [] (JDict rowless_page)) =
   parse_json2_tables (with_page [] [] (JList [JDict rowless_page]))"
  by (rule single_page_same_as_wrapped)

subsection \<open>Text wrapped twice\<close>

lemma py_isspace_simps:
  "\<not> py_isspace CHR ''{''" "\<not> py_isspace CHR ''}''"
  by (simp_all add: py_isspace_def)

lemma py_strip_braces: "py_strip (CHR ''{'' # m @ ''}'') = CHR ''{'' # m @ ''}''"
  by (simp add: py_strip_def py_isspace_simps)

lemma py_repr_dict_braces:
  "py_repr (JDict d) = Inr s \<Longrightarrow> \<exists>m. s = CHR ''{'' # m @ ''}''"
  by (auto split: sum.splits)

text \<open>
  C4 as the specification states it fails: the cell whose \<^verbatim>\<open>text\<close> is
  \<^verbatim>\<open>{"text": {"text": "x"}}\<close> does not become the empty string. One level is unwrapped and
  \<^verbatim>\<open>str\<close> of the inner mapping is the cell: \<^verbatim>\<open>{'text': 'x'}\<close>.
\<close>

theorem doubly_nested_cell_not_empty:
  "parse_json2_tables doubly_nested_body =
     Inr [\<lparr>page = 1,
           headers = [''{'' @ [CHR 0x27] @ ''text'' @ [CHR 0x27] @ '': '' @
                      [CHR 0x27] @ ''x'' @ [CHR 0x27] @ ''}''],
           rows = []\<rparr>]"
  by (simp add: parse_json2_tables_def doubly_nested_body_def doubly_nested_cell_def py_get_def
      parse_page_def index_or_zero_def py_int_def parse_row_def py_iter_def cell_text_def py_str_def
      py_strip_def py_isspace_def py_repr_str_def repr_char_def Let_def)

text \<open>
  C4, amended: a cell whose \<^verbatim>\<open>text\<close> is a mapping whose own \<^verbatim>\<open>text\<close> is again a mapping
  is unwrapped one level only, and the cell string is \<^verbatim>\<open>str\<close> of that inner mapping (its
  \<^verbatim>\<open>repr\<close>, which stripping leaves as it is). Whenever the conversion returns, the string
  is not empty.
\<close>

theorem doubly_nested_text_is_repr:
  assumes "map_of cell ''text'' = Some (JDict d)"
    and "map_of d ''text'' = Some (JDict inner)"
  shows "cell_text cell = py_repr (JDict inner) \<and> (\<forall>s. cell_text cell = Inr s \<longrightarrow> s \<noteq> [])"
proof -
  have unwrap: "cell_text cell =
      (case py_repr (JDict inner) of Inl e \<Rightarrow> Inl e | Inr s \<Rightarrow> Inr (py_strip s))"
    using assms by (simp add: cell_text_def py_str_def)
  have same: "cell_text cell = py_repr (JDict inner)"
  proof (cases "py_repr (JDict inner)")
    case (Inl e)
    with unwrap show ?thesis by simp
  next
    case (Inr s)
    from py_repr_dict_braces [OF this] obtain m where "s = CHR ''{'' # m @ ''}''" by blast
    with unwrap Inr show ?thesis by (simp add: py_strip_braces)
  qed
  moreover have "s \<noteq> []" if "py_repr (JDict inner) = Inr s" for s
    using py_repr_dict_braces [OF that] by auto
  ultimately show ?thesis by simp
qed

text \<open>
  C4, amended, at the cell \<^verbatim>\<open>{"text": {"text": {"text": "x"}}}\<close>.
\<close>

theorem doubly_nested_text_is_repr_witness:
  "map_of doubly_nested_cell ''text'' = Some (JDict [(''text'', JDict [(''text'', JStr ''x'')])]) \<and>
   map_of [(''text'', JDict [(''text'', JStr ''x'')])] ''text'' = Some (JDict [(''text'', JStr ''x'')]) \<and>
   cell_text doubly_nested_cell = py_repr (JDict [(''text'', JStr ''x'')])"
proof -
  have h1: "map_of doubly_nested_cell ''text'' =
      Some (JDict [(''text'', JDict [(''text'', JStr ''x'')])])"
    by (simp add: doubly_nested_cell_def)
  have h2: "map_of [(''text'', JDict [(''text'', JStr ''x'')])] ''text'' =
      Some (JDict [(''text'', JStr ''x'')])"
    by simp
  from doubly_nested_text_is_repr [OF h1 h2]
  have "cell_text doubly_nested_cell = py_repr (JDict [(''text'', JStr ''x'')])"
    by (rule conjunct1)
  with h1 h2 show ?thesis by blast
qed

subsection \<open>One record per page with rows\<close>

text \<open>
  C5: on a well-formed page tree (\<^verbatim>\<open>document.page\<close> a list of mappings, each with an
  integer \<^verbatim>\<open>index\<close> and a list \<^verbatim>\<open>row\<close> of mappings whose \<^verbatim>\<open>column\<close> entries are mappings
  with a string \<^verbatim>\<open>text\<close>) \<^verbatim>\<open>parse_json2_tables\<close> returns, and the page numbers of its
  records are, in order, \<^verbatim>\<open>index + 1\<close> of the page entries that have at least one row: one
  record for each such entry, in the order of the input.
\<close>

theorem one_record_per_page_with_rows:
  assumes "list_all (wf_page plain_cell) ps"
  shows "\<exists>ts. parse_json2_tables (with_page b doc (JList ps)) = Inr ts \<and>
           map page ts = map (\<lambda>p. page_index p + 1) (filter (\<lambda>p. page_rows p \<noteq> []) ps)"
proof -
  from assms have "list_all (wf_page wf_cell) ps"
    by (simp add: list_all_iff plain_page_wf)
  from wf_pages_parse [OF this] show ?thesis
    by (auto simp: parse_json2_tables_with_page)
qed

text \<open>
  C5 on three pages with the indices 0, 1, 2, the second without rows: the records are
  those of pages 1 and 3.
\<close>

theorem one_record_per_page_with_rows_witness:
  "list_all (wf_page plain_cell) example_pages \<and>
   (\<exists>ts. parse_json2_tables (with_page [] [] (JList example_pages)) = Inr ts \<and>
         map page ts = [1, 3])"
proof -
  have h: "list_all (wf_page plain_cell) example_pages"
    by (simp add: example_pages_def wf_page_def wf_row_def plain_cell_def)
  have "map (\<lambda>p. page_index p + 1) (filter (\<lambda>p. page_rows p \<noteq> []) example_pages) = [1, 3]"
    by (simp add: example_pages_def page_index_def page_rows_def)
  with one_record_per_page_with_rows [OF h, of "[]" "[]"] h show ?thesis
    by simp
qed

subsection \<open>The page number\<close>

lemma parse_page_record_page:
  "parse_page d = Inr (Some u) \<Longrightarrow> \<exists>i. py_int (index_or_zero d) = Inr i \<and> page u = i + 1"
  by (auto simp: parse_page_def split: sum.splits json.splits if_splits list.splits)

text \<open>
  The records of the page loop are, one for one and in order, the records of the entries
  that end in a record.
\<close>

lemma parse_page_list_records:
  "parse_page_list ps = Inr ts \<Longrightarrow>
     list_all2 (\<lambda>t p. \<exists>d. p = JDict d \<and> parse_page d = Inr (Some t)) ts (filter emits ps)"
proof (induction ps arbitrary: ts)
  case Nil
  then show ?case by simp
next
  case (Cons p ps)
  show ?case
  proof (cases p)
    case (JDict d)
    show ?thesis
    proof (cases "parse_page d")
      case (Inl e)
      with Cons.prems JDict show ?thesis by simp
    next
      case (Inr r)
      show ?thesis
      proof (cases r)
        case None
        with Cons Inr JDict show ?thesis by (simp add: emits_def)
      next
        case (Some u)
        with Cons.prems Inr JDict obtain us where
          us: "parse_page_list ps = Inr us" "ts = u # us"
          by (auto split: sum.splits)
        from Cons.IH [OF us(1)] us(2) JDict Inr Some show ?thesis
          by (simp add: emits_def)
      qed
    qed
  qed (use Cons in \<open>simp_all add: emits_def\<close>)
qed

text \<open>
  C6 as the specification states it fails: a page entry with the index -5 and one row
  gives a record whose \<^verbatim>\<open>page\<close> is -4, which is not positive.
\<close>

theorem negative_index_page_not_positive:
  "parse_json2_tables negative_index_body =
     Inr [\<lparr>page = - 4, headers = [''A''], rows = []\<rparr>]"
  by (simp add: parse_json2_tables_def negative_index_body_def py_get_def parse_page_def index_or_zero_def
      py_int_def parse_row_def py_iter_def cell_text_def py_str_def py_strip_def py_isspace_def)

text \<open>
  C6, amended: whenever \<^verbatim>\<open>parse_json2_tables\<close> returns, its records are, one for one and
  in the order of the input, the records of the page entries that end in a record, and
  the \<^verbatim>\<open>page\<close> of each is \<^verbatim>\<open>int(index) + 1\<close> for the \<^verbatim>\<open>index\<close> of the entry it comes from
  (0 when that entry has none). So the page number of a record is at least 1 exactly
  when the index of its own entry converts to an integer that is not negative.
\<close>

theorem record_page_is_index_plus_one:
  assumes "parse_json2_tables body = Inr ts"
  shows "list_all2
           (\<lambda>t p. \<exists>d i. p = JDict d \<and> parse_page d = Inr (Some t) \<and>
                     py_int (index_or_zero d) = Inr i \<and> page t = i + 1 \<and>
                     (1 \<le> page t \<longleftrightarrow> 0 \<le> i))
           ts (filter emits (page_entries body))"
proof -
  from parse_page_list_records [OF parse_json2_tables_entries [OF assms]]
  have "list_all2 (\<lambda>t p. \<exists>d. p = JDict d \<and> parse_page d = Inr (Some t))
          ts (filter emits (page_entries body))" .
  then show ?thesis
  proof (rule list_all2_mono)
    fix t p
    assume "\<exists>d. p = JDict d \<and> parse_page d = Inr (Some t)"
    then obtain d where d: "p = JDict d" "parse_page d = Inr (Some t)" by blast
    from parse_page_record_page [OF d(2)] obtain i where
      "py_int (index_or_zero d) = Inr i" "page t = i + 1" by blast
    with d show "\<exists>d i. p = JDict d \<and> parse_page d = Inr (Some t) \<and>
                     py_int (index_or_zero d) = Inr i \<and> page t = i + 1 \<and>
                     (1 \<le> page t \<longleftrightarrow> 0 \<le> i)"
      by (intro exI [of _ d] exI [of _ i]) simp
  qed
qed

text \<open>
  C6, amended, at a document of three page entries: index -5 with a row, index 7 with
  no row, index 2 with a row. The two records are those of the first and the third
  entry, with the pages -4 and 3.
\<close>

theorem record_page_is_index_plus_one_witness:
  "parse_json2_tables mixed_index_body =
     Inr [\<lparr>page = - 4, headers = [''A''], rows = []\<rparr>,
          \<lparr>page = 3, headers = [''B''], rows = []\<rparr>] \<and>
   list_all2
     (\<lambda>t p. \<exists>d i. p = JDict d \<and> parse_page d = Inr (Some t) \<and>
               py_int (index_or_zero d) = Inr i \<and> page t = i + 1 \<and>
               (1 \<le> page t \<longleftrightarrow> 0 \<le> i))
     [\<lparr>page = - 4, headers = [''A''], rows = []\<rparr>,
      \<lparr>page = 3, headers = [''B''], rows = []\<rparr>]
     (filter emits (page_entries mixed_index_body))"
proof -
  have h1: "parse_json2_tables mixed_index_body =
     Inr [\<lparr>page = - 4, headers = [''A''], rows = []\<rparr>,
          \<lparr>page = 3, headers = [''B''], rows = []\<rparr>]"
    by (simp add: parse_json2_tables_def mixed_index_body_def py_get_def parse_page_def
        index_or_zero_def py_int_def parse_row_def py_iter_def cell_text_def py_str_def
        py_strip_def py_isspace_def)
  show ?thesis
    using h1 record_page_is_index_plus_one [OF h1] by (rule conjI)
qed

subsection \<open>Pages without rows\<close>

lemma parse_page_list_drop:
  assumes "\<And>t. parse_page pg \<noteq> Inr (Some t)"
    and "parse_page_list (ps1 @ JDict pg # ps2) = Inr ts"
  shows "parse_page_list (ps1 @ ps2) = Inr ts"
proof -
  from assms(2) obtain ts1 ts2 where
    a: "parse_page_list ps1 = Inr ts1" "parse_page_list (JDict pg # ps2) = Inr ts2"
       "ts = ts1 @ ts2"
    by (auto simp: parse_page_list_append split: sum.splits)
  from a(2) assms(1) have "parse_page_list ps2 = Inr ts2"
    by (auto split: sum.splits option.splits)
  with a show ?thesis
    by (simp add: parse_page_list_append)
qed

lemma parse_page_list_same:
  assumes "parse_page pe = parse_page pm"
  shows "parse_page_list (ps1 @ JDict pe # ps2) = parse_page_list (ps1 @ JDict pm # ps2)"
proof -
  from assms have "parse_page_list (JDict pe # ps2) = parse_page_list (JDict pm # ps2)"
    by simp
  then show ?thesis
    by (simp only: parse_page_list_append)
qed

text \<open>
  C7: take a page entry \<open>pe\<close> whose \<^verbatim>\<open>row\<close> field is the empty list and a page entry
  \<open>pm\<close> with no \<^verbatim>\<open>row\<close> field, each anywhere in the page list and with any other fields
  in any order. Whenever \<^verbatim>\<open>parse_json2_tables\<close> returns on the list with \<open>pe\<close>, its result
  is the one it returns with the entry left out, and the same holds for \<open>pm\<close>: neither
  entry produces a record. Whenever the function returns on both inputs, the two results
  are the same; and the two inputs have the same outcome altogether, records or
  exception, as soon as \<^verbatim>\<open>int\<close> does the same on the \<^verbatim>\<open>index\<close> of the two entries (as it
  does when they have the same \<^verbatim>\<open>index\<close> field: the page number is computed before the
  rows are looked at, so an \<^verbatim>\<open>index\<close> that \<^verbatim>\<open>int\<close> refuses raises in either case).
\<close>

theorem empty_row_same_as_missing_row:
  assumes "map_of pe ''row'' = Some (JList [])"
    and "map_of pm ''row'' = None"
  shows "(\<forall>ts. parse_json2_tables (with_page b doc (JList (ps1 @ JDict pe # ps2))) = Inr ts \<longrightarrow>
               parse_json2_tables (with_page b doc (JList (ps1 @ ps2))) = Inr ts) \<and>
         (\<forall>ts. parse_json2_tables (with_page b doc (JList (ps1 @ JDict pm # ps2))) = Inr ts \<longrightarrow>
               parse_json2_tables (with_page b doc (JList (ps1 @ ps2))) = Inr ts) \<and>
         (\<forall>ts ts'. parse_json2_tables (with_page b doc (JList (ps1 @ JDict pe # ps2))) = Inr ts \<longrightarrow>
               parse_json2_tables (with_page b doc (JList (ps1 @ JDict pm # ps2))) = Inr ts' \<longrightarrow>
               ts = ts') \<and>
         (py_int (index_or_zero pe) = py_int (index_or_zero pm) \<longrightarrow>
            parse_json2_tables (with_page b doc (JList (ps1 @ JDict pe # ps2))) =
            parse_json2_tables (with_page b doc (JList (ps1 @ JDict pm # ps2))))"
proof -
  note e = parse_page_empty_row [OF assms(1)]
  note m = parse_page_missing_row [OF assms(2)]
  have ne: "parse_page pe \<noteq> Inr (Some t)" for t
    using e by (simp split: sum.splits)
  have nm: "parse_page pm \<noteq> Inr (Some t)" for t
    using m by (simp split: sum.splits)
  have c1: "\<forall>ts. parse_json2_tables (with_page b doc (JList (ps1 @ JDict pe # ps2))) = Inr ts \<longrightarrow>
               parse_json2_tables (with_page b doc (JList (ps1 @ ps2))) = Inr ts"
    using parse_page_list_drop [of pe ps1 ps2] ne
    by (simp add: parse_json2_tables_with_page)
  have c2: "\<forall>ts. parse_json2_tables (with_page b doc (JList (ps1 @ JDict pm # ps2))) = Inr ts \<longrightarrow>
               parse_json2_tables (with_page b doc (JList (ps1 @ ps2))) = Inr ts"
    using parse_page_list_drop [of pm ps1 ps2] nm
    by (simp add: parse_json2_tables_with_page)
  have c3: "py_int (index_or_zero pe) = py_int (index_or_zero pm) \<longrightarrow>
            parse_json2_tables (with_page b doc (JList (ps1 @ JDict pe # ps2))) =
            parse_json2_tables (with_page b doc (JList (ps1 @ JDict pm # ps2)))"
  proof
    assume "py_int (index_or_zero pe) = py_int (index_or_zero pm)"
    with e m have "parse_page pe = parse_page pm" by simp
    from parse_page_list_same [OF this] show
      "parse_json2_tables (with_page b doc (JList (ps1 @ JDict pe # ps2))) =
       parse_json2_tables (with_page b doc (JList (ps1 @ JDict pm # ps2)))"
      by (simp add: parse_json2_tables_with_page)
  qed
  have cb: "\<forall>ts ts'. parse_json2_tables (with_page b doc (JList (ps1 @ JDict pe # ps2))) = Inr ts \<longrightarrow>
               parse_json2_tables (with_page b doc (JList (ps1 @ JDict pm # ps2))) = Inr ts' \<longrightarrow>
               ts = ts'"
  proof (intro allI impI)
    fix ts ts'
    assume a: "parse_json2_tables (with_page b doc (JList (ps1 @ JDict pe # ps2))) = Inr ts"
      and b: "parse_json2_tables (with_page b doc (JList (ps1 @ JDict pm # ps2))) = Inr ts'"
    from c1 a have "parse_json2_tables (with_page b doc (JList (ps1 @ ps2))) = Inr ts"
      by blast
    moreover from c2 b have "parse_json2_tables (with_page b doc (JList (ps1 @ ps2))) = Inr ts'"
      by blast
    ultimately show "ts = ts'" by simp
  qed
  from c1 c2 cb c3 show ?thesis by (intro conjI)
qed

text \<open>
  C7 with the entries \<^verbatim>\<open>{"row": [], "index": 1}\<close> and \<^verbatim>\<open>{"index": 1}\<close>, each put before
  the three example pages: both inputs give what the three example pages alone give.
\<close>

theorem empty_row_same_as_missing_row_witness:
  "map_of empty_row_page ''row'' = Some (JList []) \<and>
   map_of rowless_page ''row'' = None \<and>
   parse_json2_tables (with_page [] [] (JList ([] @ JDict empty_row_page # example_pages))) =
   parse_json2_tables (with_page [] [] (JList ([] @ example_pages))) \<and>
   parse_json2_tables (with_page [] [] (JList ([] @ JDict rowless_page # example_pages))) =
   parse_json2_tables (with_page [] [] (JList ([] @ example_pages))) \<and>
   parse_json2_tables (with_page [] [] (JList ([] @ JDict empty_row_page # example_pages))) =
   parse_json2_tables (with_page [] [] (JList ([] @ JDict rowless_page # example_pages)))"
proof -
  have h1: "map_of empty_row_page ''row'' = Some (JList [])"
    by (simp add: empty_row_page_def)
  have h2: "map_of rowless_page ''row'' = None"
    by (simp add: rowless_page_def)
  note T = empty_row_same_as_missing_row [OF h1 h2, of "[]" "[]" "[]" example_pages]
  from T have a: "\<forall>ts. parse_json2_tables
        (with_page [] [] (JList ([] @ JDict empty_row_page # example_pages))) = Inr ts \<longrightarrow>
      parse_json2_tables (with_page [] [] (JList ([] @ example_pages))) = Inr ts"
    by (rule conjunct1)
  from conjunct2 [OF conjunct2 [OF conjunct2 [OF T]]]
  have c: "py_int (index_or_zero empty_row_page) =
        py_int (index_or_zero rowless_page) \<longrightarrow>
      parse_json2_tables (with_page [] [] (JList ([] @ JDict empty_row_page # example_pages))) =
      parse_json2_tables (with_page [] [] (JList ([] @ JDict rowless_page # example_pages)))" .
  have "list_all (wf_page wf_cell) example_pages"
    by (simp add: example_pages_def wf_page_def wf_row_def wf_cell_def)
  from wf_pages_parse [OF this] obtain ts where "parse_page_list example_pages = Inr ts"
    by blast
  then have e: "parse_json2_tables
      (with_page [] [] (JList ([] @ JDict empty_row_page # example_pages))) = Inr ts"
    by (simp add: parse_json2_tables_with_page parse_page_def index_or_zero_def
        empty_row_page_def py_int_def)
  with a have p0: "parse_json2_tables (with_page [] [] (JList ([] @ example_pages))) = Inr ts"
    by blast
  have "py_int (index_or_zero empty_row_page) = py_int (index_or_zero rowless_page)"
    by (simp add: index_or_zero_def empty_row_page_def rowless_page_def)
  with c have em: "parse_json2_tables
      (with_page [] [] (JList ([] @ JDict empty_row_page # example_pages))) =
      parse_json2_tables (with_page [] [] (JList ([] @ JDict rowless_page # example_pages)))"
    by blast
  from h1 h2 e p0 em show ?thesis by simp
qed

subsection \<open>The OCR path\<close>

lemma scan_page_rows:
  "rows (scan_page doc p) =
     map (take (length (headers (scan_page doc p)))) (tl (map py_split (page_lines doc (p - 1))))"
proof -
  have "(if length xs > 1 then tl xs else []) = tl xs" for xs :: "string list list"
    by (cases xs) (auto simp: Suc_le_eq)
  then show ?thesis
    by (simp add: scan_page_def Let_def)
qed

lemma extract_tables_scanned_set:
  "t \<in> set (extract_tables_scanned doc pages) \<Longrightarrow> \<exists>p \<in> set pages. t = scan_page doc p"
  by (induction pages) (auto split: if_splits)

lemma short_row_doc_scan:
  "scan_page short_row_doc 1 =
     \<lparr>page = 1, headers = [''A'', ''B'', ''C''],
       rows = [[''1'', ''2''], [''3'', ''4'', ''5'']],
       title = ''A B C'', ocr_method = ''PaddleOCR''\<rparr>"
  by code_simp

lemma short_row_doc_count: "page_count short_row_doc = 1"
  by (simp add: short_row_doc_def)

text \<open>
  The half of the alignment the slice \<^verbatim>\<open>row[:len(headers)]\<close> does: no data row of a
  record has more cells than there are headers, each being a split line cut to that
  number.
\<close>

lemma ocr_rows_never_longer_than_headers:
  assumes "t \<in> set (extract_tables_scanned doc pages)"
  shows "(\<forall>r \<in> set (rows t). length r \<le> length (headers t)) \<and>
         (\<exists>p \<in> set pages.
            rows t = map (take (length (headers t))) (tl (map py_split (page_lines doc (p - 1)))))"
proof -
  from extract_tables_scanned_set [OF assms] obtain p where
    p: "p \<in> set pages" "t = scan_page doc p" by blast
  have r: "rows t = map (take (length (headers t))) (tl (map py_split (page_lines doc (p - 1))))"
    using p(2) scan_page_rows [of doc p] by simp
  have "\<forall>r \<in> set (rows t). length r \<le> length (headers t)"
    by (subst r) auto
  with p(1) r show ?thesis by blast
qed

text \<open>
  C8: the specification says that on the OCR path every data row has exactly as many
  cells as the record has headers, longer rows truncated and shorter rows padded. The
  line of the source is commented \<^verbatim>\<open># Align rows to headers\<close>, and the Markdown writer
  builds a frame from the rows with the headers as its columns; but the slice
  \<^verbatim>\<open>row[:len(headers)]\<close> only truncates. With the header line \<^verbatim>\<open>A B C\<close> the data line
  \<^verbatim>\<open>1 2\<close> stays a row of two cells under three headers, while the line \<^verbatim>\<open>3 4 5 6\<close> is
  cut to three cells.
\<close>

theorem ocr_short_row_not_padded:
  "map headers (extract_tables_scanned short_row_doc [1]) = [[''A'', ''B'', ''C'']] \<and>
   map rows (extract_tables_scanned short_row_doc [1]) = [[[''1'', ''2''], [''3'', ''4'', ''5'']]]"
  by (simp add: short_row_doc_count short_row_doc_scan)

subsection \<open>The driver and the page list\<close>

text \<open>
  C9: the specification says that a page list with no page of the document makes
  \<^verbatim>\<open>process_pdf\<close> raise the failure "No valid pages to process" before any classification
  or extraction. The driver classifies first, on \<^verbatim>\<open>pages[0] - 1\<close>, and tests \<^verbatim>\<open>pages\<close> only
  after the extraction. With the empty list it raises \<^verbatim>\<open>IndexError\<close>. With the list
  \<^verbatim>\<open>[0]\<close> and a digital document it classifies a page and starts the digital extraction,
  which is what raises the failure; with a scanned document it raises nothing and
  returns no table.
\<close>

theorem no_valid_pages_not_raised_first:
  "process_pdf three_page_doc [] = ([], Inl IndexError) \<and>
   process_pdf three_page_doc [0] = ([Classify (- 1), ExtractDigital [0]], Inl NoValidPages) \<and>
   process_pdf short_row_doc [0] = ([Classify (- 1), ExtractScanned [0]], Inr (Scanned []))"
  by (simp add: process_pdf_def is_scanned_def three_page_doc_def short_row_doc_def
      extract_tables_digital_def py_strip_def py_isspace_def)

text \<open>
  The failure never comes first: whenever the driver ends with it, a page has been
  classified before.
\<close>

lemma no_valid_pages_only_after_classification:
  "snd (process_pdf doc pages) = Inl NoValidPages \<Longrightarrow>
     \<exists>n evs. fst (process_pdf doc pages) = Classify n # evs"
  by (auto simp: process_pdf_def split: list.splits sum.splits if_splits)

subsection \<open>The two copies of the function\<close>

text \<open>
  C10: on a well-formed page tree (\<^verbatim>\<open>document.page\<close> a non-empty list of mappings,
  each with an integer \<^verbatim>\<open>index\<close> and a non-empty list \<^verbatim>\<open>row\<close> of mappings whose \<^verbatim>\<open>column\<close>
  is a list of mappings whose \<^verbatim>\<open>text\<close> is a string or a mapping with a string \<^verbatim>\<open>text\<close>)
  the function of \<^verbatim>\<open>scan_pdf.py\<close> and the older one of \<^verbatim>\<open>src/.py\<close> return equal
  results.
\<close>

theorem both_versions_agree_on_well_formed:
  assumes "ps \<noteq> []"
    and "list_all (\<lambda>p. wf_page wf_cell p \<and> page_rows p \<noteq> []) ps"
  shows "parse_json2_tables (with_page b doc (JList ps)) =
         parse_json2_tables_dotpy (with_page b doc (JList ps))"
proof -
  from assms(2) have "list_all (wf_page wf_cell) ps"
    by (simp add: list_all_iff)
  from wf_pages_parse [OF this] show ?thesis
    by (auto simp: parse_json2_tables_with_page parse_json2_tables_dotpy_with_page_list)
qed

text \<open>
  C10 on a page whose first cell wraps its text in an object.
\<close>

theorem both_versions_agree_on_well_formed_witness:
  "nested_pages \<noteq> [] \<and>
   list_all (\<lambda>p. wf_page wf_cell p \<and> page_rows p \<noteq> []) nested_pages \<and>
   parse_json2_tables (with_page [] [] (JList nested_pages)) =
   parse_json2_tables_dotpy (with_page [] [] (JList nested_pages))"
proof -
  have h1: "nested_pages \<noteq> []"
    by (simp add: nested_pages_def)
  have h2: "list_all (\<lambda>p. wf_page wf_cell p \<and> page_rows p \<noteq> []) nested_pages"
    by (simp add: nested_pages_def wf_page_def wf_row_def wf_cell_def page_rows_def)
  from both_versions_agree_on_well_formed [OF h1 h2, of "[]" "[]"] h1 h2 show ?thesis
    by blast
qed

end
